theory Spec2Isabelle
  imports Complex_Main
begin

section \<open>The arithmetic of \<^verbatim>\<open>double\<close>\<close>

text \<open>
  The metric of \<^verbatim>\<open>itkThinShellDemonsMetric.hxx\<close> computes with \<^verbatim>\<open>double\<close>, the
  binary64 format of IEEE 754. A \<^verbatim>\<open>double\<close> is a finite value, one of the two
  infinities, or NaN. A finite \<^verbatim>\<open>double\<close> is identified with its value (the two
  zeros are one value: they compare equal, and nothing in the metric tells them apart).
  Every operation computes the exact result and rounds it to the nearest representable
  value, ties to the even significand; a result of magnitude \<open>2^1024\<close> or more after
  rounding is an infinity. Operations on infinities and NaN follow the standard.
\<close>

datatype double = Finite real | PosInf | NegInf | NaN

definition round_half_even :: "real \<Rightarrow> int" where
  "round_half_even y =
     (let f = \<lfloor>y\<rfloor>
      in if y - of_int f < 1 / 2 then f
         else if 1 / 2 < y - of_int f then f + 1
         else if even f then f else f + 1)"

definition binary64_ulp :: "real \<Rightarrow> real" where
  \<comment> \<open>the spacing of the representable values around \<open>x\<close>: 53 significant bits, the
      exponent not below that of the subnormal range\<close>
  "binary64_ulp x = 2 powi (max \<lfloor>log 2 \<bar>x\<bar>\<rfloor> (- 1022) - 52)"

definition round_to_ulp :: "real \<Rightarrow> real \<Rightarrow> double" where
  "round_to_ulp u x =
     (let r = of_int (round_half_even (x / u)) * u
      in if 2 ^ 1024 \<le> r then PosInf else if r \<le> - (2 ^ 1024) then NegInf else Finite r)"

definition round_binary64 :: "real \<Rightarrow> double" where
  "round_binary64 x = (if x = 0 then Finite 0 else round_to_ulp (binary64_ulp x) x)"

fun dneg :: "double \<Rightarrow> double" where
  "dneg (Finite x) = Finite (- x)"
| "dneg PosInf = NegInf"
| "dneg NegInf = PosInf"
| "dneg NaN = NaN"

fun dadd :: "double \<Rightarrow> double \<Rightarrow> double" where
  "dadd NaN b = NaN"
| "dadd a NaN = NaN"
| "dadd (Finite x) (Finite y) = round_binary64 (x + y)"
| "dadd PosInf NegInf = NaN"
| "dadd NegInf PosInf = NaN"
| "dadd PosInf b = PosInf"
| "dadd a PosInf = PosInf"
| "dadd NegInf b = NegInf"
| "dadd a NegInf = NegInf"

definition dsub :: "double \<Rightarrow> double \<Rightarrow> double" where
  "dsub a b = dadd a (dneg b)"

fun dsign :: "double \<Rightarrow> real" where
  "dsign (Finite x) = sgn x"
| "dsign PosInf = 1"
| "dsign NegInf = - 1"
| "dsign NaN = 0"

fun dmul :: "double \<Rightarrow> double \<Rightarrow> double" where
  "dmul NaN b = NaN"
| "dmul a NaN = NaN"
| "dmul (Finite x) (Finite y) = round_binary64 (x * y)"
| "dmul a b =
     (if dsign a * dsign b = 0 then NaN
      else if 0 < dsign a * dsign b then PosInf else NegInf)"

fun dless :: "double \<Rightarrow> double \<Rightarrow> bool" where
  "dless NaN b = False"
| "dless a NaN = False"
| "dless (Finite x) (Finite y) = (x < y)"
| "dless a NegInf = False"
| "dless NegInf b = True"
| "dless PosInf b = False"
| "dless a PosInf = True"

definition dle :: "double \<Rightarrow> double \<Rightarrow> bool" where
  "dle a b = (a \<noteq> NaN \<and> b \<noteq> NaN \<and> \<not> dless b a)"

definition is_finite :: "double \<Rightarrow> bool" where
  "is_finite a = (case a of Finite x \<Rightarrow> True | _ \<Rightarrow> False)"

section \<open>Points and vectors\<close>

text \<open>
  Points and vectors have three \<^verbatim>\<open>double\<close> coordinates.
  \<^verbatim>\<open>SquaredEuclideanDistanceTo\<close> adds the squared coordinate differences, in
  coordinate order, to a sum that starts at zero. The start value
  \<^verbatim>\<open>NumericTraits<double>::max()\<close> of the closest-point scan is the largest finite
  \<^verbatim>\<open>double\<close>.
\<close>

type_synonym point = "double \<times> double \<times> double"

type_synonym vector3 = "double \<times> double \<times> double"

definition SquaredEuclideanDistanceTo :: "point \<Rightarrow> point \<Rightarrow> double" where
  "SquaredEuclideanDistanceTo a b =
     (case a of (a0, a1, a2) \<Rightarrow> case b of (b0, b1, b2) \<Rightarrow>
        dadd (dadd (dadd (Finite 0) (dmul (dsub a0 b0) (dsub a0 b0)))
                   (dmul (dsub a1 b1) (dsub a1 b1)))
             (dmul (dsub a2 b2) (dsub a2 b2)))"

definition point_plus :: "point \<Rightarrow> vector3 \<Rightarrow> point" where
  \<comment> \<open>\<^verbatim>\<open>inputPoint + vec\<close>\<close>
  "point_plus p v =
     (case p of (p0, p1, p2) \<Rightarrow> case v of (v0, v1, v2) \<Rightarrow>
        (dadd p0 v0, dadd p1 v1, dadd p2 v2))"

definition point_minus :: "point \<Rightarrow> point \<Rightarrow> vector3" where
  \<comment> \<open>\<^verbatim>\<open>targetPoint - inputPoint\<close>\<close>
  "point_minus a b =
     (case a of (a0, a1, a2) \<Rightarrow> case b of (b0, b1, b2) \<Rightarrow>
        (dsub a0 b0, dsub a1 b1, dsub a2 b2))"

definition NumericTraits_double_max :: double where
  \<comment> \<open>the largest finite binary64 value\<close>
  "NumericTraits_double_max = Finite ((2 ^ 53 - 1) * 2 ^ 971)"

section \<open>Transform, meshes and the state of the metric\<close>

text \<open>
  A transform is an external collaborator: it holds a parameter vector and maps a point
  under these parameters. A mesh is the ordered list of its vertex positions (the
  identifier of a vertex is its place in the traversal) together with the output its
  producer would deliver on \<^verbatim>\<open>GetSource()->Update()\<close>, when it has a producer.
  A smart pointer that may be null is an \<^typ>\<open>'a option\<close>.
\<close>

record transform =
  Parameters :: "double list"
  PointMap :: "double list \<Rightarrow> point \<Rightarrow> point"

definition TransformPoint :: "transform \<Rightarrow> point \<Rightarrow> point" where
  "TransformPoint t p = PointMap t (Parameters t) p"

definition SetParameters :: "transform \<Rightarrow> double list \<Rightarrow> transform" where
  "SetParameters t ps = t\<lparr>Parameters := ps\<rparr>"

record mesh =
  Points :: "point list"
  Source :: "point list option"

definition GetNumberOfPoints :: "mesh \<Rightarrow> nat" where
  "GetNumberOfPoints msh = length (Points msh)"

definition UpdateSource :: "mesh \<Rightarrow> mesh" where
  \<comment> \<open>\<^verbatim>\<open>if ( mesh->GetSource() ) mesh->GetSource()->Update();\<close>\<close>
  "UpdateSource msh = (case Source msh of None \<Rightarrow> msh | Some ps \<Rightarrow> msh\<lparr>Points := ps\<rparr>)"

record metric =
  m_Transform :: "transform option"
  m_FixedMesh :: "mesh option"
  m_MovingMesh :: "mesh option"
  targetMap :: "nat \<rightharpoonup> point"
  m_TargetPositionComputed :: bool

definition ThinShellDemonsMetric :: metric where
  \<comment> \<open>the constructor: nothing is set, no target has been computed\<close>
  "ThinShellDemonsMetric =
     \<lparr>m_Transform = None, m_FixedMesh = None, m_MovingMesh = None,
      targetMap = Map.empty, m_TargetPositionComputed = False\<rparr>"

text \<open>
  \<^verbatim>\<open>itkExceptionMacro\<close> throws an \<^verbatim>\<open>ExceptionObject\<close> with a message. The other
  three outcomes are what C++ leaves undefined and the source does not guard: calling
  through a null transform pointer, indexing a parameter or derivative array past its
  end, and \<^verbatim>\<open>ElementAt\<close> for an identifier the target map does not hold. Every
  operation returns its outcome together with the state it leaves behind.
\<close>

datatype error = ExceptionObject string | NullDereference | OutOfBounds | MissingElement

section \<open>Initialize and ComputeTargetPosition\<close>

text \<open>
  The inner \<^verbatim>\<open>while\<close> loop of \<^verbatim>\<open>ComputeTargetPosition\<close> over the fixed points. Its
  state is the pair of the locals \<^verbatim>\<open>targetPoint\<close> and \<^verbatim>\<open>minimumDistance\<close>.
\<close>

fun closest_scan :: "point \<Rightarrow> point list \<Rightarrow> point \<times> double \<Rightarrow> point \<times> double" where
  "closest_scan transformedPoint [] (targetPoint, minimumDistance) =
     (targetPoint, minimumDistance)"
| "closest_scan transformedPoint (f # fs) (targetPoint, minimumDistance) =
     (let dist = SquaredEuclideanDistanceTo f transformedPoint
      in if dless dist minimumDistance
         then closest_scan transformedPoint fs (f, dist)
         else closest_scan transformedPoint fs (targetPoint, minimumDistance))"

text \<open>
  The outer loop over the moving points. The local \<^verbatim>\<open>targetPoint\<close> is declared
  without an initial value in every round; \<open>uninit identifier\<close> stands for whatever
  the storage holds in round \<open>identifier\<close>. The counter \<^verbatim>\<open>int identifier\<close> is a
  natural number here: a mesh is taken to have fewer than \<open>2^31 / 3\<close> vertices, so that
  neither the counter nor \<^verbatim>\<open>identifier*3 + 2\<close> wraps.
\<close>

fun target_loop ::
  "(nat \<Rightarrow> point) \<Rightarrow> transform option \<Rightarrow> point list \<Rightarrow> point list \<Rightarrow> nat \<Rightarrow>
   (nat \<rightharpoonup> point) \<Rightarrow> (error + unit) \<times> (nat \<rightharpoonup> point)" where
  "target_loop uninit tr fixedPoints [] identifier tm = (Inr (), tm)"
| "target_loop uninit tr fixedPoints (v # vs) identifier tm =
     (case tr of
        None \<Rightarrow> (Inl NullDereference, tm)
      | Some t \<Rightarrow>
          (let transformedPoint = TransformPoint t v;
               targetPoint = fst (closest_scan transformedPoint fixedPoints
                                   (uninit identifier, NumericTraits_double_max))
           in target_loop uninit tr fixedPoints vs (Suc identifier)
                (tm(identifier \<mapsto> targetPoint))))"

definition ComputeTargetPosition :: "(nat \<Rightarrow> point) \<Rightarrow> metric \<Rightarrow> (error + unit) \<times> metric" where
  "ComputeTargetPosition uninit m =
     (case m_FixedMesh m of
        None \<Rightarrow> (Inl (ExceptionObject ''Fixed point set has not been assigned''), m)
      | Some fixedMesh \<Rightarrow>
     (case m_MovingMesh m of
        None \<Rightarrow> (Inl (ExceptionObject ''Moving point set has not been assigned''), m)
      | Some movingMesh \<Rightarrow>
     (case target_loop uninit (m_Transform m) (Points fixedMesh) (Points movingMesh) 0 Map.empty of
        (Inl e, tm) \<Rightarrow> (Inl e, m\<lparr>targetMap := tm\<rparr>)
      | (Inr u, tm) \<Rightarrow> (Inr (), m\<lparr>targetMap := tm, m_TargetPositionComputed := True\<rparr>))))"

definition Initialize :: "(nat \<Rightarrow> point) \<Rightarrow> metric \<Rightarrow> (error + unit) \<times> metric" where
  "Initialize uninit m =
     (if m_Transform m = None then (Inl (ExceptionObject ''Transform is not present''), m)
      else if m_MovingMesh m = None then (Inl (ExceptionObject ''MovingMesh is not present''), m)
      else if m_FixedMesh m = None then (Inl (ExceptionObject ''FixedMesh is not present''), m)
      else
        (let m1 = m\<lparr>m_MovingMesh := map_option UpdateSource (m_MovingMesh m)\<rparr>;
             m2 = m1\<lparr>m_FixedMesh := map_option UpdateSource (m_FixedMesh m1)\<rparr>
         in ComputeTargetPosition uninit m2))"

section \<open>GetValue\<close>

text \<open>
  Modelled from the spec: the method \<^verbatim>\<open>SetTransformParameters\<close> of the superclass,
  which \<^verbatim>\<open>GetValue\<close> calls and which is declared outside the two source files. The
  specification describes the call as caching the supplied parameters into the
  transform's state, and lists a missing transform among the configuration errors.
\<close>

definition SetTransformParameters :: "metric \<Rightarrow> double list \<Rightarrow> (error + unit) \<times> metric" where
  "SetTransformParameters m parameters =
     (case m_Transform m of
        None \<Rightarrow> (Inl (ExceptionObject ''Transform has not been assigned''), m)
      | Some t \<Rightarrow> (Inr (), m\<lparr>m_Transform := Some (SetParameters t parameters)\<rparr>))"

text \<open>
  The loop of \<^verbatim>\<open>GetValue\<close>. The three reads \<^verbatim>\<open>parameters[identifier*3 + k]\<close> are
  in range exactly when the last one is.
\<close>

fun value_loop ::
  "double list \<Rightarrow> (nat \<rightharpoonup> point) \<Rightarrow> point list \<Rightarrow> nat \<Rightarrow> double \<Rightarrow> error + double" where
  "value_loop parameters tm [] identifier functionValue = Inr functionValue"
| "value_loop parameters tm (v # vs) identifier functionValue =
     (if \<not> identifier * 3 + 2 < length parameters then Inl OutOfBounds
      else
        (let vec = (parameters ! (identifier * 3), parameters ! (identifier * 3 + 1),
                    parameters ! (identifier * 3 + 2));
             transformedPoint = point_plus v vec
         in case tm identifier of
              None \<Rightarrow> Inl MissingElement
            | Some targetPoint \<Rightarrow>
                (let dist = SquaredEuclideanDistanceTo targetPoint transformedPoint
                 in value_loop parameters tm vs (Suc identifier) (dadd functionValue dist))))"

definition GetValue :: "metric \<Rightarrow> double list \<Rightarrow> (error + double) \<times> metric" where
  "GetValue m parameters =
     (case m_FixedMesh m of
        None \<Rightarrow> (Inl (ExceptionObject ''Fixed point set has not been assigned''), m)
      | Some fixedMesh \<Rightarrow>
     (case m_MovingMesh m of
        None \<Rightarrow> (Inl (ExceptionObject ''Moving point set has not been assigned''), m)
      | Some movingMesh \<Rightarrow>
     (case SetTransformParameters m parameters of
        (Inl e, m') \<Rightarrow> (Inl e, m')
      | (Inr u, m') \<Rightarrow>
          (value_loop parameters (targetMap m') (Points movingMesh) 0 (Finite 0), m'))))"

section \<open>GetDerivative\<close>

text \<open>
  \<^verbatim>\<open>DerivativeType(n)\<close> allocates \<open>n\<close> entries without initialising them;
  \<open>fresh\<close> stands for the content of the new storage. \<^verbatim>\<open>memset\<close> zeroes the first
  \<open>n\<close> entries (all bits zero is the \<^verbatim>\<open>double\<close> zero). The factor \<^verbatim>\<open>-2\<close> is the
  \<^verbatim>\<open>double\<close> of that value. A store \<^verbatim>\<open>derivative[i] = x\<close> past the end is undefined.
\<close>

definition DerivativeType :: "(nat \<Rightarrow> double) \<Rightarrow> nat \<Rightarrow> double list" where
  "DerivativeType fresh n = map fresh [0..<n]"

definition memset_zero :: "double list \<Rightarrow> nat \<Rightarrow> double list" where
  "memset_zero derivative n = replicate n (Finite 0) @ drop n derivative"

definition store :: "double list \<Rightarrow> nat \<Rightarrow> double \<Rightarrow> error + double list" where
  "store derivative i x = (if i < length derivative then Inr (derivative[i := x]) else Inl OutOfBounds)"

fun derivative_loop ::
  "double list \<Rightarrow> (nat \<rightharpoonup> point) \<Rightarrow> point list \<Rightarrow> nat \<Rightarrow> double list \<Rightarrow>
   (error + unit) \<times> double list" where
  "derivative_loop parameters tm [] identifier derivative = (Inr (), derivative)"
| "derivative_loop parameters tm (v # vs) identifier derivative =
     (if \<not> identifier * 3 + 2 < length parameters then (Inl OutOfBounds, derivative)
      else
        (let vec = (parameters ! (identifier * 3), parameters ! (identifier * 3 + 1),
                    parameters ! (identifier * 3 + 2));
             transformedPoint = point_plus v vec
         in case tm identifier of
              None \<Rightarrow> (Inl MissingElement, derivative)
            | Some targetPoint \<Rightarrow>
                (case point_minus targetPoint v of (distVec0, distVec1, distVec2) \<Rightarrow>
                 (case store derivative (identifier * 3) (dmul (Finite (- 2)) distVec0) of
                    Inl e \<Rightarrow> (Inl e, derivative)
                  | Inr d1 \<Rightarrow>
                 (case store d1 (identifier * 3 + 1) (dmul (Finite (- 2)) distVec1) of
                    Inl e \<Rightarrow> (Inl e, d1)
                  | Inr d2 \<Rightarrow>
                 (case store d2 (identifier * 3 + 2) (dmul (Finite (- 2)) distVec2) of
                    Inl e \<Rightarrow> (Inl e, d2)
                  | Inr d3 \<Rightarrow>
                      derivative_loop parameters tm vs (Suc identifier) d3))))))"

definition GetDerivative ::
  "(nat \<Rightarrow> double) \<Rightarrow> metric \<Rightarrow> double list \<Rightarrow> double list \<Rightarrow>
   (error + unit) \<times> double list \<times> metric" where
  "GetDerivative fresh m parameters derivative =
     (case m_FixedMesh m of
        None \<Rightarrow> (Inl (ExceptionObject ''Fixed point set has not been assigned''), derivative, m)
      | Some fixedMesh \<Rightarrow>
     (case m_MovingMesh m of
        None \<Rightarrow> (Inl (ExceptionObject ''Moving point set has not been assigned''), derivative, m)
      | Some movingMesh \<Rightarrow>
        (let d1 = (if length derivative \<noteq> GetNumberOfPoints fixedMesh * 3
                   then DerivativeType fresh (GetNumberOfPoints fixedMesh * 3)
                   else derivative);
             d2 = memset_zero d1 (GetNumberOfPoints fixedMesh * 3)
         in case derivative_loop parameters (targetMap m) (Points movingMesh) 0 d2 of
              (r, d3) \<Rightarrow> (r, d3, m))))"

definition GetValueAndDerivative ::
  "(nat \<Rightarrow> double) \<Rightarrow> metric \<Rightarrow> double list \<Rightarrow> double list \<Rightarrow>
   (error + double) \<times> double list \<times> metric" where
  "GetValueAndDerivative fresh m parameters derivative =
     (case GetValue m parameters of
        (Inl e, m') \<Rightarrow> (Inl e, derivative, m')
      | (Inr v, m') \<Rightarrow>
          (case GetDerivative fresh m' parameters derivative of
             (Inl e, d, m'') \<Rightarrow> (Inl e, d, m'')
           | (Inr u, d, m'') \<Rightarrow> (Inr v, d, m'')))"

section \<open>Reference notions and concrete states\<close>

text \<open>
  The specification's gradient of one vertex: \<open>-2 * (t - p0)\<close>, component by component,
  in the arithmetic of \<^verbatim>\<open>double\<close>.
\<close>

definition spec_gradient :: "point \<Rightarrow> point \<Rightarrow> double list" where
  "spec_gradient t p0 =
     (case point_minus t p0 of (d0, d1, d2) \<Rightarrow>
        [dmul (Finite (- 2)) d0, dmul (Finite (- 2)) d1, dmul (Finite (- 2)) d2])"

text \<open>
  The specification's energy: the squared distances of the moving vertices to their
  targets, each taken at the displaced position, added up in identifier order.
\<close>

definition spec_vertex_distance :: "metric \<Rightarrow> mesh \<Rightarrow> double list \<Rightarrow> nat \<Rightarrow> double" where
  "spec_vertex_distance m movingMesh parameters i =
     SquaredEuclideanDistanceTo (the (targetMap m i))
       (point_plus (Points movingMesh ! i)
          (parameters ! (i * 3), parameters ! (i * 3 + 1), parameters ! (i * 3 + 2)))"

definition spec_energy :: "metric \<Rightarrow> mesh \<Rightarrow> double list \<Rightarrow> double" where
  "spec_energy m movingMesh parameters =
     foldl dadd (Finite 0)
       (map (spec_vertex_distance m movingMesh parameters) [0..<GetNumberOfPoints movingMesh])"

definition finite_point :: "point \<Rightarrow> bool" where
  "finite_point p = (case p of (p0, p1, p2) \<Rightarrow> is_finite p0 \<and> is_finite p1 \<and> is_finite p2)"

definition is_ExceptionObject :: "error + 'a \<Rightarrow> bool" where
  "is_ExceptionObject r = (case r of Inl (ExceptionObject msg) \<Rightarrow> True | _ \<Rightarrow> False)"



text \<open>
  Concrete states on which the operations are evaluated. The first is the scenario of
  the specification's testable properties: fixed vertices \<open>(0,0,0)\<close> and \<open>(10,0,0)\<close>,
  one moving vertex \<open>(1,0,0)\<close>, the identity transform.
\<close>

definition pt :: "real \<Rightarrow> real \<Rightarrow> real \<Rightarrow> point" where
  "pt x y z = (Finite x, Finite y, Finite z)"

definition identity_transform :: transform where
  "identity_transform = \<lparr>Parameters = [], PointMap = (\<lambda>ps p. p)\<rparr>"

definition stack_garbage :: "nat \<Rightarrow> point" where
  "stack_garbage identifier = pt 7 7 7"

definition heap_garbage :: "nat \<Rightarrow> double" where
  "heap_garbage i = Finite 9"

definition two_point_metric :: metric where
  "two_point_metric =
     \<lparr>m_Transform = Some identity_transform,
      m_FixedMesh = Some \<lparr>Points = [pt 0 0 0, pt 10 0 0], Source = None\<rparr>,
      m_MovingMesh = Some \<lparr>Points = [pt 1 0 0], Source = None\<rparr>,
      targetMap = Map.empty, m_TargetPositionComputed = False\<rparr>"

definition two_point_ready :: metric where
  "two_point_ready =
     two_point_metric\<lparr>targetMap := [0 \<mapsto> pt 0 0 0], m_TargetPositionComputed := True\<rparr>"

definition short_fixed_metric :: metric where
  "short_fixed_metric =
     \<lparr>m_Transform = Some identity_transform,
      m_FixedMesh = Some \<lparr>Points = [pt 0 0 0], Source = None\<rparr>,
      m_MovingMesh = Some \<lparr>Points = [pt 1 0 0, pt 2 0 0], Source = None\<rparr>,
      targetMap = Map.empty, m_TargetPositionComputed = False\<rparr>"

definition short_fixed_ready :: metric where
  "short_fixed_ready =
     short_fixed_metric\<lparr>targetMap := [0 \<mapsto> pt 0 0 0, 1 \<mapsto> pt 0 0 0],
                        m_TargetPositionComputed := True\<rparr>"

definition far_fixed_metric :: metric where
  "far_fixed_metric =
     \<lparr>m_Transform = Some identity_transform,
      m_FixedMesh = Some \<lparr>Points = [pt (2 ^ 512) 0 0], Source = None\<rparr>,
      m_MovingMesh = Some \<lparr>Points = [pt 0 0 0], Source = None\<rparr>,
      targetMap = Map.empty, m_TargetPositionComputed = False\<rparr>"

definition empty_fixed_metric :: metric where
  "empty_fixed_metric =
     \<lparr>m_Transform = Some identity_transform,
      m_FixedMesh = Some \<lparr>Points = [], Source = None\<rparr>,
      m_MovingMesh = Some \<lparr>Points = [pt 1 0 0], Source = None\<rparr>,
      targetMap = Map.empty, m_TargetPositionComputed = False\<rparr>"

definition no_transform_ready :: metric where
  "no_transform_ready = two_point_ready\<lparr>m_Transform := None\<rparr>"

lemmas example_defs = two_point_metric_def two_point_ready_def short_fixed_metric_def
  short_fixed_ready_def far_fixed_metric_def empty_fixed_metric_def no_transform_ready_def
  identity_transform_def stack_garbage_def heap_garbage_def pt_def

lemmas op_defs = GetDerivative_def GetValue_def ComputeTargetPosition_def Initialize_def
  SetTransformParameters_def SetParameters_def TransformPoint_def GetNumberOfPoints_def
  UpdateSource_def DerivativeType_def memset_zero_def store_def point_plus_def point_minus_def
  SquaredEuclideanDistanceTo_def NumericTraits_double_max_def dsub_def

section \<open>Rounding\<close>

lemma powr_of_int_plus1: "(2::real) powr (real_of_int n + 1) = 2 powi (n + 1)"
  using powr_real_of_int' [of 2 "n + 1"] by simp

lemma floor_log2_bounds:
  assumes "x \<noteq> 0"
  shows "2 powi \<lfloor>log 2 \<bar>x\<bar>\<rfloor> \<le> \<bar>x\<bar>" and "\<bar>x\<bar> < 2 powi (\<lfloor>log 2 \<bar>x\<bar>\<rfloor> + 1)"
proof -
  have "0 < \<bar>x\<bar>" using assms by simp
  from floor_log_eq_powr_iff [OF this, of 2 "\<lfloor>log 2 \<bar>x\<bar>\<rfloor>"]
  have "2 powr (of_int \<lfloor>log 2 \<bar>x\<bar>\<rfloor>) \<le> \<bar>x\<bar> \<and> \<bar>x\<bar> < 2 powr (of_int (\<lfloor>log 2 \<bar>x\<bar>\<rfloor> + 1))"
    by simp
  then show "2 powi \<lfloor>log 2 \<bar>x\<bar>\<rfloor> \<le> \<bar>x\<bar>" and "\<bar>x\<bar> < 2 powi (\<lfloor>log 2 \<bar>x\<bar>\<rfloor> + 1)"
    by (simp_all add: powr_real_of_int' powr_of_int_plus1)
qed

lemma floor_log2_eq:
  assumes "2 powi n \<le> \<bar>x\<bar>" and "\<bar>x\<bar> < 2 powi (n + 1)"
  shows "\<lfloor>log 2 \<bar>x\<bar>\<rfloor> = n"
proof -
  have "(0::real) < 2 powi n" by simp
  with assms(1) have "0 < \<bar>x\<bar>" by linarith
  from floor_log_eq_powr_iff [OF this, of 2 n] assms show ?thesis
    by (simp add: powr_real_of_int' powr_of_int_plus1)
qed

lemma round_half_even_of_int: "round_half_even (of_int j) = j"
  by (simp add: round_half_even_def)

lemma round_half_even_nonneg: "0 \<le> y \<Longrightarrow> 0 \<le> round_half_even y"
  by (simp add: round_half_even_def Let_def)

lemma round_binary64_eval:
  assumes "2 powi n \<le> \<bar>x\<bar>" and "\<bar>x\<bar> < 2 powi (n + 1)"
  shows "round_binary64 x = round_to_ulp (2 powi (max n (- 1022) - 52)) x"
proof -
  have "(0::real) < 2 powi n" by simp
  with assms(1) have "0 < \<bar>x\<bar>" by linarith
  then have "x \<noteq> 0" by simp
  then show ?thesis
    by (simp add: round_binary64_def binary64_ulp_def floor_log2_eq [OF assms])
qed

lemma round_binary64_exact:
  assumes x: "x = of_int m * 2 powi e" and m: "\<bar>m\<bar> < 2 ^ 53"
    and lo: "- 1074 \<le> e" and hi: "e \<le> 971"
  shows "round_binary64 x = Finite x"
proof (cases "m = 0")
  case True
  then show ?thesis using x by (simp add: round_binary64_def)
next
  case False
  then have x0: "x \<noteq> 0" using x by simp
  define n where "n = \<lfloor>log 2 \<bar>x\<bar>\<rfloor>"
  have ax: "\<bar>x\<bar> = of_int \<bar>m\<bar> * 2 powi e"
    using x by (simp add: abs_mult)
  have "1 \<le> \<bar>m\<bar>" using False by simp
  then have "(1::real) \<le> of_int \<bar>m\<bar>" by linarith
  then have "1 * 2 powi e \<le> of_int \<bar>m\<bar> * (2::real) powi e"
    by (intro mult_right_mono) simp_all
  then have low: "2 powi e \<le> \<bar>x\<bar>"
    unfolding ax by simp
  have "(of_int \<bar>m\<bar> :: real) < of_int (2 ^ 53)" using m by (simp only: of_int_less_iff)
  then have "(of_int \<bar>m\<bar> :: real) < 2 ^ 53" by simp
  then have "of_int \<bar>m\<bar> * (2::real) powi e < 2 ^ 53 * 2 powi e"
    by (intro mult_strict_right_mono) simp_all
  then have "\<bar>x\<bar> < 2 ^ 53 * 2 powi e"
    unfolding ax by simp
  also have "\<dots> = 2 powi (e + 53)"
    by (simp add: power_int_add)
  finally have up: "\<bar>x\<bar> < 2 powi (e + 53)" .
  have b1: "2 powi n \<le> \<bar>x\<bar>" and b2: "\<bar>x\<bar> < 2 powi (n + 1)"
    unfolding n_def using floor_log2_bounds [OF x0] by simp_all
  have "e < n + 1"
  proof (rule ccontr)
    assume "\<not> e < n + 1"
    then have "(2::real) powi (n + 1) \<le> 2 powi e" by (intro power_int_increasing) simp_all
    with low b2 show False by linarith
  qed
  have "n < e + 53"
  proof (rule ccontr)
    assume "\<not> n < e + 53"
    then have "(2::real) powi (e + 53) \<le> 2 powi n" by (intro power_int_increasing) simp_all
    with up b1 show False by linarith
  qed
  define E where "E = max n (- 1022)"
  define k where "k = e - (E - 52)"
  have k0: "0 \<le> k" using \<open>n < e + 53\<close> lo by (simp add: k_def E_def)
  have u: "binary64_ulp x = 2 powi (E - 52)"
    by (simp add: binary64_ulp_def E_def n_def)
  have "x / 2 powi (E - 52) = of_int m * 2 powi k"
    unfolding x k_def by (simp add: power_int_diff)
  also have "\<dots> = of_int (m * 2 ^ nat k)"
    using k0 by (simp add: power_int_def)
  finally have q: "x / 2 powi (E - 52) = of_int (m * 2 ^ nat k)" .
  have r: "of_int (round_half_even (x / 2 powi (E - 52))) * 2 powi (E - 52) = x"
    unfolding q round_half_even_of_int unfolding q [symmetric] by simp
  have "(2::real) powi (e + 53) \<le> 2 powi 1024"
    using hi by (intro power_int_increasing) simp_all
  with up have "\<bar>x\<bar> < 2 ^ 1024" by simp
  then have "\<not> 2 ^ 1024 \<le> x" and "\<not> x \<le> - (2 ^ 1024)" by linarith+
  then show ?thesis
    using x0 by (simp add: round_binary64_def u round_to_ulp_def r)
qed

lemma round_binary64_of_int:
  assumes "\<bar>k\<bar> < 2 ^ 53"
  shows "round_binary64 (of_int k) = Finite (of_int k)"
  by (rule round_binary64_exact [where m = k and e = 0]) (use assms in simp_all)

lemma round_binary64_not_NaN: "round_binary64 x \<noteq> NaN"
  by (simp add: round_binary64_def round_to_ulp_def Let_def)

lemma round_binary64_nonneg:
  assumes "0 \<le> x"
  shows "dle (Finite 0) (round_binary64 x)"
proof (cases "x = 0")
  case True
  then show ?thesis by (simp add: round_binary64_def dle_def)
next
  case False
  have u: "0 < binary64_ulp x" by (simp add: binary64_ulp_def)
  then have "0 \<le> x / binary64_ulp x" using assms by simp
  then have "0 \<le> round_half_even (x / binary64_ulp x)" by (rule round_half_even_nonneg)
  then have "0 \<le> of_int (round_half_even (x / binary64_ulp x)) * binary64_ulp x"
    using u by simp
  then show ?thesis
    using False by (simp add: round_binary64_def round_to_ulp_def Let_def dle_def)
qed

lemma round_binary64_zero: "round_binary64 0 = Finite 0"
  by (simp add: round_binary64_def)

lemma round_binary64_one: "round_binary64 1 = Finite 1"
  using round_binary64_of_int [of 1] by simp

lemma round_binary64_minus_one: "round_binary64 (- 1) = Finite (- 1)"
  using round_binary64_of_int [of "- 1"] by simp

lemma round_binary64_numeral:
  "(numeral w :: int) < 2 ^ 53 \<Longrightarrow> round_binary64 (numeral w) = Finite (numeral w)"
  using round_binary64_of_int [of "numeral w"] by simp

lemma round_binary64_neg_numeral:
  "(numeral w :: int) < 2 ^ 53 \<Longrightarrow> round_binary64 (- numeral w) = Finite (- numeral w)"
  using round_binary64_of_int [of "- numeral w"] by simp

lemmas round_small = round_binary64_zero round_binary64_one round_binary64_minus_one
  round_binary64_numeral round_binary64_neg_numeral

lemma dle_zero_iff: "dle (Finite 0) d \<longleftrightarrow> d = PosInf \<or> (\<exists>x. d = Finite x \<and> 0 \<le> x)"
  by (cases d) (auto simp: dle_def)

lemma dadd_nonneg:
  assumes "dle (Finite 0) a" and "dle (Finite 0) b"
  shows "dle (Finite 0) (dadd a b)"
proof -
  from assms(1) consider "a = PosInf" | x where "a = Finite x" "0 \<le> x"
    unfolding dle_zero_iff by blast
  then show ?thesis
  proof cases
    case 1
    with assms(2) show ?thesis by (cases b) (simp_all add: dle_def)
  next
    case 2
    from assms(2) consider "b = PosInf" | y where "b = Finite y" "0 \<le> y"
      unfolding dle_zero_iff by blast
    then show ?thesis
    proof cases
      case 1
      with 2 show ?thesis by (simp add: dle_def)
    next
      case b: 2
      with 2 show ?thesis by (simp add: round_binary64_nonneg)
    qed
  qed
qed

lemma dmul_self_nonneg:
  assumes "a \<noteq> NaN"
  shows "dle (Finite 0) (dmul a a)"
proof (cases a)
  case (Finite x)
  have "dle (Finite 0) (round_binary64 (x * x))"
    by (rule round_binary64_nonneg) simp
  with Finite show ?thesis by simp
qed (use assms in \<open>simp_all add: dle_def\<close>)

lemma dadd_finite_not_NaN:
  assumes "is_finite a" and "is_finite b"
  shows "dadd a b \<noteq> NaN"
  using assms by (cases a; cases b) (simp_all add: is_finite_def round_binary64_not_NaN)

lemma dsub_finite_not_NaN:
  assumes "is_finite a" and "b \<noteq> NaN"
  shows "dsub a b \<noteq> NaN"
  using assms by (cases a; cases b) (simp_all add: is_finite_def dsub_def round_binary64_not_NaN)

lemma foldl_dadd_nonneg:
  assumes "dle (Finite 0) acc" and "\<forall>d \<in> set ds. dle (Finite 0) d"
  shows "dle (Finite 0) (foldl dadd acc ds)"
  using assms by (induction ds arbitrary: acc) (simp_all add: dadd_nonneg)

lemma not_negative_iff: "\<not> dless d (Finite 0) \<longleftrightarrow> d = NaN \<or> dle (Finite 0) d"
  by (cases d) (auto simp: dle_def)

lemma dadd_NaN_right: "dadd a NaN = NaN"
  by (cases a) simp_all

lemma dadd_not_negative:
  assumes "\<not> dless a (Finite 0)" and "\<not> dless b (Finite 0)"
  shows "\<not> dless (dadd a b) (Finite 0)"
proof (cases "a = NaN \<or> b = NaN")
  case True
  then show ?thesis by (auto simp: dadd_NaN_right)
next
  case False
  with assms have "dle (Finite 0) a" and "dle (Finite 0) b"
    by (simp_all add: not_negative_iff)
  then have "dle (Finite 0) (dadd a b)" by (rule dadd_nonneg)
  then show ?thesis by (simp add: not_negative_iff)
qed

lemma dmul_self_not_negative: "\<not> dless (dmul a a) (Finite 0)"
proof (cases "a = NaN")
  case True
  then show ?thesis by simp
next
  case False
  then have "dle (Finite 0) (dmul a a)" by (rule dmul_self_nonneg)
  then show ?thesis by (simp add: not_negative_iff)
qed

lemma foldl_dadd_not_negative:
  assumes "\<not> dless acc (Finite 0)" and "\<forall>d \<in> set ds. \<not> dless d (Finite 0)"
  shows "\<not> dless (foldl dadd acc ds) (Finite 0)"
  using assms by (induction ds arbitrary: acc) (simp_all add: dadd_not_negative)

lemma SquaredEuclideanDistanceTo_not_negative:
  "\<not> dless (SquaredEuclideanDistanceTo a b) (Finite 0)"
proof -
  obtain a0 a1 a2 where a: "a = (a0, a1, a2)" by (cases a)
  obtain b0 b1 b2 where b: "b = (b0, b1, b2)" by (cases b)
  have z: "\<not> dless (Finite 0) (Finite 0)" by simp
  show ?thesis
    unfolding a b SquaredEuclideanDistanceTo_def prod.case
    by (intro dadd_not_negative z dmul_self_not_negative)
qed

lemma SquaredEuclideanDistanceTo_nonneg:
  assumes "finite_point t" and "finite_point v" and "finite_point vec"
  shows "dle (Finite 0) (SquaredEuclideanDistanceTo t (point_plus v vec))"
proof -
  obtain t0 t1 t2 where t: "t = (t0, t1, t2)" by (cases t)
  obtain v0 v1 v2 where v: "v = (v0, v1, v2)" by (cases v)
  obtain c0 c1 c2 where c: "vec = (c0, c1, c2)" by (cases vec)
  have f: "is_finite t0" "is_finite t1" "is_finite t2"
    "is_finite v0" "is_finite v1" "is_finite v2" "is_finite c0" "is_finite c1" "is_finite c2"
    using assms by (simp_all add: finite_point_def t v c)
  have z: "dle (Finite 0) (Finite 0)" by (simp add: dle_def)
  have s: "dle (Finite 0) (dmul (dsub a (dadd b d)) (dsub a (dadd b d)))"
    if "is_finite a" "is_finite b" "is_finite d" for a b d
    by (intro dmul_self_nonneg dsub_finite_not_NaN dadd_finite_not_NaN that)
  show ?thesis
    unfolding t v c SquaredEuclideanDistanceTo_def point_plus_def prod.case
    by (intro dadd_nonneg z s f)
qed

section \<open>The loops and the operations built on them\<close>

lemma target_loop_Some:
  "target_loop uninit (Some t) fixedPoints vs k tm =
     (Inr (), \<lambda>i. if k \<le> i \<and> i < k + length vs
                   then Some (fst (closest_scan (TransformPoint t (vs ! (i - k))) fixedPoints
                                 (uninit i, NumericTraits_double_max)))
                   else tm i)"
proof (induction vs arbitrary: k tm)
  case Nil
  show ?case by (auto simp: fun_eq_iff)
next
  case (Cons v vs)
  show ?case
    unfolding target_loop.simps option.case Let_def Cons.IH
    by (auto simp: fun_eq_iff nth_Cons' Suc_diff_le)
qed

lemma value_loop_fold:
  assumes "k * 3 + 3 * length vs \<le> length ps"
    and "\<forall>i < length vs. tm (k + i) \<noteq> None"
  shows "value_loop ps tm vs k acc =
     Inr (foldl dadd acc
       (map (\<lambda>i. SquaredEuclideanDistanceTo (the (tm (k + i)))
                  (point_plus (vs ! i)
                     (ps ! ((k + i) * 3), ps ! ((k + i) * 3 + 1), ps ! ((k + i) * 3 + 2))))
            [0..<length vs]))"
  using assms
proof (induction vs arbitrary: k acc)
  case Nil
  show ?case by simp
next
  case (Cons v vs)
  from Cons.prems(2) obtain t where t: "tm k = Some t" by force
  have rng: "k * 3 + 2 < length ps" using Cons.prems(1) by simp
  have p1: "Suc k * 3 + 3 * length vs \<le> length ps" using Cons.prems(1) by simp
  have p2: "\<forall>i < length vs. tm (Suc k + i) \<noteq> None"
    using Cons.prems(2) by (metis add_Suc_shift length_Cons Suc_less_eq)
  show ?case
    using rng t Cons.IH [OF p1 p2]
    by (simp add: Let_def map_upt_Suc algebra_simps del: upt_Suc)
qed

lemma derivative_loop_params:
  "length p1 = length p2 \<Longrightarrow>
   derivative_loop p1 tm vs k d = derivative_loop p2 tm vs k d"
proof (induction vs arbitrary: k d)
  case Nil
  show ?case by simp
next
  case (Cons v vs)
  then show ?case
    by (simp add: Let_def split: option.splits prod.splits sum.splits)
qed


lemma store_in_range: "i < length d \<Longrightarrow> store d i x = Inr (d[i := x])"
  by (simp add: store_def)

lemma derivative_loop_ok:
  assumes "k * 3 + 3 * length vs \<le> length ps"
    and "\<forall>i < length vs. tm (k + i) \<noteq> None"
    and "k * 3 + 3 * length vs \<le> length d"
  shows "\<exists>d'. derivative_loop ps tm vs k d = (Inr (), d') \<and> length d' = length d \<and>
           (\<forall>i < length vs. \<forall>c < 3.
               d' ! ((k + i) * 3 + c) = spec_gradient (the (tm (k + i))) (vs ! i) ! c) \<and>
           (\<forall>j. j < k * 3 \<or> k * 3 + 3 * length vs \<le> j \<longrightarrow> d' ! j = d ! j)"
  using assms
proof (induction vs arbitrary: k d)
  case Nil
  show ?case by simp
next
  case (Cons v vs)
  from Cons.prems(2) obtain t where t: "tm k = Some t" by force
  obtain t0 t1 t2 where tv: "point_minus t v = (t0, t1, t2)" by (cases "point_minus t v")
  let ?d3 = "d[k * 3 := dmul (Finite (- 2)) t0, k * 3 + 1 := dmul (Finite (- 2)) t1,
              k * 3 + 2 := dmul (Finite (- 2)) t2]"
  have rng: "k * 3 + 2 < length ps" using Cons.prems(1) by simp
  have rngd: "k * 3 + 2 < length d" using Cons.prems(3) by simp
  have step: "derivative_loop ps tm (v # vs) k d = derivative_loop ps tm vs (Suc k) ?d3"
    using rng rngd t tv by (simp add: Let_def store_def)
  have p1: "Suc k * 3 + 3 * length vs \<le> length ps" using Cons.prems(1) by simp
  have p2: "\<forall>i < length vs. tm (Suc k + i) \<noteq> None"
    using Cons.prems(2) by (metis add_Suc_shift length_Cons Suc_less_eq)
  have p3: "Suc k * 3 + 3 * length vs \<le> length ?d3" using Cons.prems(3) by simp
  from Cons.IH [OF p1 p2 p3] obtain d' where
    run: "derivative_loop ps tm vs (Suc k) ?d3 = (Inr (), d')" and
    len: "length d' = length ?d3" and
    new: "\<forall>i < length vs. \<forall>c < 3.
            d' ! ((Suc k + i) * 3 + c) = spec_gradient (the (tm (Suc k + i))) (vs ! i) ! c" and
    old: "\<forall>j. j < Suc k * 3 \<or> Suc k * 3 + 3 * length vs \<le> j \<longrightarrow> d' ! j = ?d3 ! j"
    by blast
  have a: "\<forall>i < length (v # vs). \<forall>c < 3.
      d' ! ((k + i) * 3 + c) = spec_gradient (the (tm (k + i))) ((v # vs) ! i) ! c"
  proof (intro allI impI)
    fix i c :: nat
    assume i: "i < length (v # vs)" and c: "c < 3"
    show "d' ! ((k + i) * 3 + c) = spec_gradient (the (tm (k + i))) ((v # vs) ! i) ! c"
    proof (cases i)
      case 0
      have "d' ! (k * 3 + c) = ?d3 ! (k * 3 + c)" using old c by simp
      also have "\<dots> = [dmul (Finite (- 2)) t0, dmul (Finite (- 2)) t1, dmul (Finite (- 2)) t2] ! c"
      proof -
        have "c = 0 \<or> c = 1 \<or> c = 2" using c by arith
        then show ?thesis using rngd by (elim disjE) simp_all
      qed
      finally show ?thesis using 0 t tv by (simp add: spec_gradient_def)
    next
      case (Suc n)
      with i have "n < length vs" by simp
      with new c have "d' ! ((Suc k + n) * 3 + c) = spec_gradient (the (tm (Suc k + n))) (vs ! n) ! c"
        by blast
      then show ?thesis using Suc by simp
    qed
  qed
  have b: "\<forall>j. j < k * 3 \<or> k * 3 + 3 * length (v # vs) \<le> j \<longrightarrow> d' ! j = d ! j"
  proof (intro allI impI)
    fix j assume j: "j < k * 3 \<or> k * 3 + 3 * length (v # vs) \<le> j"
    then have "d' ! j = ?d3 ! j" using old by auto
    also have "\<dots> = d ! j" using j by auto
    finally show "d' ! j = d ! j" .
  qed
  show ?case unfolding step using run len a b by simp
qed

lemma replicate_numeral_Cons: "replicate (numeral k) x = x # replicate (pred_numeral k) x"
  by (simp add: numeral_eq_Suc)

lemma ComputeTargetPosition_run:
  assumes "m_FixedMesh m = Some fixedMesh" and "m_MovingMesh m = Some movingMesh"
    and "m_Transform m = Some t"
  shows "ComputeTargetPosition uninit m =
     (Inr (), m\<lparr>targetMap := (\<lambda>i. if i < length (Points movingMesh)
                   then Some (fst (closest_scan (TransformPoint t (Points movingMesh ! i))
                                (Points fixedMesh) (uninit i, NumericTraits_double_max)))
                   else None),
               m_TargetPositionComputed := True\<rparr>)"
  using assms by (simp add: ComputeTargetPosition_def target_loop_Some cong: if_cong)

lemma GetValue_run:
  assumes "m_FixedMesh m = Some fixedMesh" and "m_MovingMesh m = Some movingMesh"
    and "m_Transform m = Some t"
    and "length parameters = 3 * GetNumberOfPoints movingMesh"
    and "\<forall>i < GetNumberOfPoints movingMesh. targetMap m i \<noteq> None"
  shows "fst (GetValue m parameters) = Inr (spec_energy m movingMesh parameters)"
proof -
  have a: "0 * 3 + 3 * length (Points movingMesh) \<le> length parameters"
    using assms(4) by (simp add: GetNumberOfPoints_def)
  have b: "\<forall>i < length (Points movingMesh). targetMap m (0 + i) \<noteq> None"
    using assms(5) by (simp add: GetNumberOfPoints_def)
  show ?thesis
    using assms(1-3) value_loop_fold [OF a b, of "Finite 0"]
    by (simp add: GetValue_def SetTransformParameters_def GetNumberOfPoints_def
          spec_energy_def spec_vertex_distance_def [abs_def])
qed






lemma GetDerivative_run:
  assumes "m_FixedMesh m = Some fixedMesh" and "m_MovingMesh m = Some movingMesh"
    and "length parameters = 3 * GetNumberOfPoints movingMesh"
    and "\<forall>i < GetNumberOfPoints movingMesh. targetMap m i \<noteq> None"
    and "GetNumberOfPoints movingMesh \<le> GetNumberOfPoints fixedMesh"
  shows "\<exists>d. GetDerivative fresh m parameters derivative = (Inr (), d, m) \<and>
           length d = 3 * GetNumberOfPoints fixedMesh \<and>
           (\<forall>i < GetNumberOfPoints movingMesh. \<forall>c < 3.
              d ! (i * 3 + c) = spec_gradient (the (targetMap m i)) (Points movingMesh ! i) ! c) \<and>
           (\<forall>j. 3 * GetNumberOfPoints movingMesh \<le> j \<and> j < 3 * GetNumberOfPoints fixedMesh
                  \<longrightarrow> d ! j = Finite 0)"
proof -
  let ?n = "GetNumberOfPoints fixedMesh * 3"
  let ?d1 = "if length derivative \<noteq> ?n then DerivativeType fresh ?n else derivative"
  let ?d2 = "memset_zero ?d1 ?n"
  have len2: "length ?d2 = ?n"
    by (simp add: memset_zero_def DerivativeType_def)
  have zero: "?d2 = replicate ?n (Finite 0)"
    by (simp add: memset_zero_def DerivativeType_def)
  have a: "0 * 3 + 3 * length (Points movingMesh) \<le> length parameters"
    using assms(3) by (simp add: GetNumberOfPoints_def)
  have b: "\<forall>i < length (Points movingMesh). targetMap m (0 + i) \<noteq> None"
    using assms(4) by (simp add: GetNumberOfPoints_def)
  have c: "0 * 3 + 3 * length (Points movingMesh) \<le> length ?d2"
    unfolding len2 using assms(5) by (simp add: GetNumberOfPoints_def)
  from derivative_loop_ok [OF a b c] obtain d' where
    run: "derivative_loop parameters (targetMap m) (Points movingMesh) 0 ?d2 = (Inr (), d')" and
    len: "length d' = length ?d2" and
    new: "\<forall>i < length (Points movingMesh). \<forall>c < 3.
            d' ! ((0 + i) * 3 + c) = spec_gradient (the (targetMap m (0 + i))) (Points movingMesh ! i) ! c" and
    old: "\<forall>j. j < 0 * 3 \<or> 0 * 3 + 3 * length (Points movingMesh) \<le> j \<longrightarrow> d' ! j = ?d2 ! j"
    by blast
  have g: "GetDerivative fresh m parameters derivative = (Inr (), d', m)"
    using assms(1,2) run by (simp add: GetDerivative_def Let_def)
  have l: "length d' = 3 * GetNumberOfPoints fixedMesh"
    using len len2 by (simp add: mult.commute)
  have n: "\<forall>i < GetNumberOfPoints movingMesh. \<forall>c < 3.
              d' ! (i * 3 + c) = spec_gradient (the (targetMap m i)) (Points movingMesh ! i) ! c"
    using new by (simp add: GetNumberOfPoints_def)
  have z: "\<forall>j. 3 * GetNumberOfPoints movingMesh \<le> j \<and> j < 3 * GetNumberOfPoints fixedMesh
                  \<longrightarrow> d' ! j = Finite 0"
  proof (intro allI impI)
    fix j assume j: "3 * GetNumberOfPoints movingMesh \<le> j \<and> j < 3 * GetNumberOfPoints fixedMesh"
    then have "d' ! j = ?d2 ! j" using old by (simp add: GetNumberOfPoints_def)
    also have "\<dots> = Finite 0" unfolding zero using j by (simp add: mult.commute)
    finally show "d' ! j = Finite 0" .
  qed
  from g l n z show ?thesis by blast
qed

lemma derivative_loop_length:
  "length (snd (derivative_loop ps tm vs k d)) = length d"
proof (induction vs arbitrary: k d)
  case Nil
  show ?case by simp
next
  case (Cons v vs)
  show ?case
    by (simp add: Let_def store_def Cons.IH split: option.splits prod.splits)
qed

lemma GetDerivative_buffer_length:
  assumes "m_FixedMesh m = Some fixedMesh" and "m_MovingMesh m = Some movingMesh"
  shows "length (fst (snd (GetDerivative fresh m parameters derivative)))
           = 3 * GetNumberOfPoints fixedMesh"
proof -
  let ?n = "GetNumberOfPoints fixedMesh * 3"
  let ?d1 = "if length derivative \<noteq> ?n then DerivativeType fresh ?n else derivative"
  have len2: "length (memset_zero ?d1 ?n) = ?n"
    by (simp add: memset_zero_def DerivativeType_def)
  have "fst (snd (GetDerivative fresh m parameters derivative))
      = snd (derivative_loop parameters (targetMap m) (Points movingMesh) 0 (memset_zero ?d1 ?n))"
    using assms by (simp add: GetDerivative_def Let_def split: prod.splits)
  then show ?thesis using len2 by (simp add: derivative_loop_length mult.commute)
qed

section \<open>The derivative buffer\<close>

text \<open>
  C1. The specification asks that after \<^verbatim>\<open>GetDerivative\<close> the derivative vector has
  exactly \<open>3 * N_moving\<close> entries. The source sizes and zeroes the buffer by the number
  of points of the fixed mesh. In the scenario of the specification (two fixed vertices,
  one moving vertex, targets as \<^verbatim>\<open>Initialize\<close> computes them) a call with an empty
  buffer returns six entries, not three: the gradient of the one moving vertex followed by
  three zeros.
\<close>

theorem GetDerivative_sizes_by_fixed_mesh:
  "Initialize stack_garbage two_point_metric = (Inr (), two_point_ready) \<and>
   GetDerivative heap_garbage two_point_ready [Finite 0, Finite 0, Finite 0] [] =
     (Inr (), [Finite 2, Finite 0, Finite 0, Finite 0, Finite 0, Finite 0], two_point_ready) \<and>
   length [Finite 2, Finite 0, Finite 0, Finite 0, Finite 0, Finite 0]
     \<noteq> 3 * GetNumberOfPoints (the (m_MovingMesh two_point_ready))"
  by (simp add: op_defs example_defs replicate_numeral_Cons round_small)

text \<open>
  C2. The specification asks that for every moving vertex \<open>i\<close> the entries
  \<open>3i .. 3i+2\<close> of the derivative hold \<open>-2 * (t - p0)\<close>. With one fixed vertex and two
  moving vertices (targets as \<^verbatim>\<open>Initialize\<close> computes them) the buffer has three
  entries; the stores for the second moving vertex go to the indices 3 to 5, past its
  end, and the call does not deliver a derivative. Lemma \<open>GetDerivative_run\<close> above
  shows the entries are as specified whenever the moving mesh has no more vertices
  than the fixed mesh.
\<close>

theorem GetDerivative_overruns_short_buffer:
  "Initialize stack_garbage short_fixed_metric = (Inr (), short_fixed_ready) \<and>
   GetDerivative heap_garbage short_fixed_ready
       [Finite 0, Finite 0, Finite 0, Finite 0, Finite 0, Finite 0] [] =
     (Inl OutOfBounds, [Finite 2, Finite 0, Finite 0], short_fixed_ready)"
  by (simp add: op_defs example_defs replicate_numeral_Cons round_small fun_eq_iff)

section \<open>The value\<close>



text \<open>
  C8, as stated, fails. The parameters are used as they come. In the scenario of the
  specification a parameter vector whose first entry is NaN makes the value NaN, and
  NaN is not greater than or equal to zero.
\<close>

theorem GetValue_NaN_counterexample:
  "fst (GetValue two_point_ready [NaN, Finite 0, Finite 0]) = Inr NaN \<and>
   \<not> dle (Finite 0) NaN"
  by (simp add: op_defs example_defs round_small dle_def)

text \<open>
  C8, amended. Under the conditions of C3 \<^verbatim>\<open>GetValue\<close> returns a value that is never
  negative: it is greater than or equal to zero or it is NaN. It is greater than or equal
  to zero (a finite \<^verbatim>\<open>double\<close> that is not negative, or positive infinity when the sum
  overflows) whenever the entries of the parameter vector, the coordinates of the moving
  vertices and the coordinates of their targets are finite.
\<close>

theorem GetValue_nonnegative:
  assumes "m_FixedMesh m = Some fixedMesh" and "m_MovingMesh m = Some movingMesh"
    and "m_Transform m = Some t"
    and "length parameters = 3 * GetNumberOfPoints movingMesh"
    and "\<forall>i < GetNumberOfPoints movingMesh. targetMap m i \<noteq> None"
  shows "case fst (GetValue m parameters) of
           Inl e \<Rightarrow> False
         | Inr v \<Rightarrow>
             \<not> dless v (Finite 0) \<and>
             ((\<forall>i < length parameters. is_finite (parameters ! i)) \<and>
              (\<forall>i < GetNumberOfPoints movingMesh. finite_point (Points movingMesh ! i)) \<and>
              (\<forall>i < GetNumberOfPoints movingMesh. finite_point (the (targetMap m i)))
              \<longrightarrow> dle (Finite 0) v)"
proof -
  have nn: "\<not> dless (spec_energy m movingMesh parameters) (Finite 0)"
    unfolding spec_energy_def
    by (intro foldl_dadd_not_negative)
       (simp_all add: spec_vertex_distance_def SquaredEuclideanDistanceTo_not_negative)
  have fin: "dle (Finite 0) (spec_energy m movingMesh parameters)"
    if p: "\<forall>i < length parameters. is_finite (parameters ! i)"
      and v: "\<forall>i < GetNumberOfPoints movingMesh. finite_point (Points movingMesh ! i)"
      and t: "\<forall>i < GetNumberOfPoints movingMesh. finite_point (the (targetMap m i))"
  proof -
    have "dle (Finite 0) (spec_vertex_distance m movingMesh parameters i)"
      if "i < GetNumberOfPoints movingMesh" for i
    proof -
      have "i * 3 + 2 < length parameters" using that assms(4) by simp
      then have "finite_point (parameters ! (i * 3), parameters ! (i * 3 + 1), parameters ! (i * 3 + 2))"
        using p by (simp add: finite_point_def)
      with v t that show ?thesis
        unfolding spec_vertex_distance_def by (intro SquaredEuclideanDistanceTo_nonneg) simp_all
    qed
    then show ?thesis
      unfolding spec_energy_def by (intro foldl_dadd_nonneg) (simp_all add: dle_def)
  qed
  show ?thesis
    unfolding GetValue_run [OF assms] using nn fin by simp
qed

theorem GetValue_nonnegative_witness:
  "fst (GetValue two_point_ready [Finite 0, Finite (- 4), Finite 3]) = Inr (Finite 26) \<and>
   \<not> dless (Finite 26) (Finite 0) \<and> dle (Finite 0) (Finite 26)"
proof -
  let ?ps = "[Finite 0, Finite (- 4), Finite 3]"
  let ?M = "\<lparr>Points = [pt 1 0 0], Source = None\<rparr>"
  have v: "fst (GetValue two_point_ready ?ps) = Inr (Finite 26)"
    by (simp add: op_defs example_defs round_small)
  have "case fst (GetValue two_point_ready ?ps) of
           Inl e \<Rightarrow> False
         | Inr v \<Rightarrow>
             \<not> dless v (Finite 0) \<and>
             ((\<forall>i < length ?ps. is_finite (?ps ! i)) \<and>
              (\<forall>i < GetNumberOfPoints ?M. finite_point (Points ?M ! i)) \<and>
              (\<forall>i < GetNumberOfPoints ?M. finite_point (the (targetMap two_point_ready i)))
              \<longrightarrow> dle (Finite 0) v)"
    by (rule GetValue_nonnegative
          [where fixedMesh = "\<lparr>Points = [pt 0 0 0, pt 10 0 0], Source = None\<rparr>"
             and t = identity_transform])
       (simp_all add: example_defs GetNumberOfPoints_def)
  moreover have "(\<forall>i < length ?ps. is_finite (?ps ! i)) \<and>
              (\<forall>i < GetNumberOfPoints ?M. finite_point (Points ?M ! i)) \<and>
              (\<forall>i < GetNumberOfPoints ?M. finite_point (the (targetMap two_point_ready i)))"
    by (simp add: example_defs GetNumberOfPoints_def finite_point_def is_finite_def
          nth_Cons' less_Suc_eq numeral_3_eq_3)
  ultimately show ?thesis unfolding v by simp
qed

section \<open>The correspondence\<close>

text \<open>
  C4. The specification asks that every moving vertex gets as target the fixed vertex
  of minimal squared distance. The scan starts from the bound
  \<^verbatim>\<open>NumericTraits<double>::max()\<close>, takes a fixed vertex only when its squared
  distance is strictly below the bound so far, and the local \<^verbatim>\<open>targetPoint\<close> has no
  initial value. The fixed mesh here has the single vertex \<open>(2^512, 0, 0)\<close> and the
  moving vertex is the origin: the squared distance overflows to infinity, the only
  fixed vertex is not taken, and the target recorded for the moving vertex is the
  content of the unassigned local.
\<close>

theorem ComputeTargetPosition_far_vertex:
  "Points (the (m_FixedMesh far_fixed_metric)) = [pt (2 ^ 512) 0 0] \<and>
   SquaredEuclideanDistanceTo (pt (2 ^ 512) 0 0)
       (TransformPoint (the (m_Transform far_fixed_metric))
          (Points (the (m_MovingMesh far_fixed_metric)) ! 0)) = PosInf \<and>
   fst (ComputeTargetPosition stack_garbage far_fixed_metric) = Inr () \<and>
   targetMap (snd (ComputeTargetPosition stack_garbage far_fixed_metric)) 0
     = Some (stack_garbage 0) \<and>
   stack_garbage 0 \<noteq> pt (2 ^ 512) 0 0"
proof -
  have r1: "round_binary64 (2 ^ 512) = Finite (2 ^ 512)"
    by (rule round_binary64_exact [where m = 1 and e = 512]) simp_all
  have r2: "round_binary64 (2 ^ 1024) = PosInf"
    by (subst round_binary64_eval [where n = 1024])
       (simp_all add: round_to_ulp_def round_half_even_def)
  show ?thesis
    using r1 r2 by (simp add: op_defs example_defs round_small)
qed

text \<open>
  C10. When the fixed mesh is present but has no points, the moving mesh has at least
  one point and the transform is present, \<^verbatim>\<open>ComputeTargetPosition\<close> raises nothing,
  sets \<^verbatim>\<open>m_TargetPositionComputed\<close>, and the entry it stores for every moving vertex
  is the value of the local \<^verbatim>\<open>targetPoint\<close> that was never assigned.
\<close>

theorem ComputeTargetPosition_empty_fixed_mesh:
  assumes "m_FixedMesh m = Some fixedMesh" and "Points fixedMesh = []"
    and "m_MovingMesh m = Some movingMesh" and "Points movingMesh \<noteq> []"
    and "m_Transform m = Some t"
  shows "fst (ComputeTargetPosition uninit m) = Inr () \<and>
     m_TargetPositionComputed (snd (ComputeTargetPosition uninit m)) \<and>
     (\<forall>i < GetNumberOfPoints movingMesh.
        targetMap (snd (ComputeTargetPosition uninit m)) i = Some (uninit i))"
  unfolding ComputeTargetPosition_run [OF assms(1,3,5)]
  by (simp add: assms(2) GetNumberOfPoints_def)

theorem ComputeTargetPosition_empty_fixed_mesh_witness:
  "fst (ComputeTargetPosition stack_garbage empty_fixed_metric) = Inr () \<and>
   m_TargetPositionComputed (snd (ComputeTargetPosition stack_garbage empty_fixed_metric)) \<and>
   targetMap (snd (ComputeTargetPosition stack_garbage empty_fixed_metric)) 0 = Some (stack_garbage 0)"
proof -
  have "fst (ComputeTargetPosition stack_garbage empty_fixed_metric) = Inr () \<and>
     m_TargetPositionComputed (snd (ComputeTargetPosition stack_garbage empty_fixed_metric)) \<and>
     (\<forall>i < GetNumberOfPoints \<lparr>Points = [pt 1 0 0], Source = None\<rparr>.
        targetMap (snd (ComputeTargetPosition stack_garbage empty_fixed_metric)) i = Some (stack_garbage i))"
    by (rule ComputeTargetPosition_empty_fixed_mesh
          [where fixedMesh = "\<lparr>Points = [], Source = None\<rparr>" and t = identity_transform])
       (simp_all add: example_defs)
  then show ?thesis by (simp add: GetNumberOfPoints_def)
qed

section \<open>Configuration errors\<close>

text \<open>
  C5, as stated, fails. \<^verbatim>\<open>GetDerivative\<close> checks the two meshes only. With both meshes
  present and no transform it runs to the end and raises nothing.
\<close>

theorem GetDerivative_without_transform_counterexample:
  "m_Transform no_transform_ready = None \<and>
   fst (GetDerivative heap_garbage no_transform_ready [Finite 0, Finite 0, Finite 0] []) = Inr ()"
  by (simp add: op_defs example_defs replicate_numeral_Cons round_small)

text \<open>
  C5, amended. \<^verbatim>\<open>GetValue\<close> checks again for a missing transform, a missing fixed
  mesh and a missing moving mesh (the meshes in its own body, the transform in the
  \<^verbatim>\<open>SetTransformParameters\<close> it calls) and raises an \<^verbatim>\<open>ExceptionObject\<close> when any of
  the three is absent. \<^verbatim>\<open>GetDerivative\<close> checks again for a missing fixed mesh and a
  missing moving mesh and raises an \<^verbatim>\<open>ExceptionObject\<close> when either is absent.
\<close>

theorem evaluators_recheck_configuration:
  "(m_Transform m = None \<or> m_FixedMesh m = None \<or> m_MovingMesh m = None \<longrightarrow>
      is_ExceptionObject (fst (GetValue m parameters))) \<and>
   (m_FixedMesh m = None \<or> m_MovingMesh m = None \<longrightarrow>
      is_ExceptionObject (fst (GetDerivative fresh m parameters derivative)))"
  by (auto simp: GetValue_def GetDerivative_def SetTransformParameters_def is_ExceptionObject_def
        split: option.splits)

theorem evaluators_recheck_configuration_witness:
  "is_ExceptionObject (fst (GetValue no_transform_ready [Finite 0, Finite 0, Finite 0])) \<and>
   is_ExceptionObject (fst (GetDerivative heap_garbage
      (two_point_ready\<lparr>m_MovingMesh := None\<rparr>) [Finite 0, Finite 0, Finite 0] []))"
proof -
  have a: "m_Transform no_transform_ready = None \<or> m_FixedMesh no_transform_ready = None
      \<or> m_MovingMesh no_transform_ready = None"
    by (simp add: example_defs)
  have b: "m_FixedMesh (two_point_ready\<lparr>m_MovingMesh := None\<rparr>) = None
      \<or> m_MovingMesh (two_point_ready\<lparr>m_MovingMesh := None\<rparr>) = None"
    by simp
  from evaluators_recheck_configuration
         [of no_transform_ready "[Finite 0, Finite 0, Finite 0]" heap_garbage "[]"] a
  have "is_ExceptionObject (fst (GetValue no_transform_ready [Finite 0, Finite 0, Finite 0]))"
    by blast
  moreover from evaluators_recheck_configuration
         [of "two_point_ready\<lparr>m_MovingMesh := None\<rparr>" "[Finite 0, Finite 0, Finite 0]"
             heap_garbage "[]"] b
  have "is_ExceptionObject (fst (GetDerivative heap_garbage
      (two_point_ready\<lparr>m_MovingMesh := None\<rparr>) [Finite 0, Finite 0, Finite 0] []))"
    by blast
  ultimately show ?thesis by blast
qed

text \<open>
  C6. When the transform, the fixed mesh or the moving mesh is not set,
  \<^verbatim>\<open>Initialize\<close> raises an \<^verbatim>\<open>ExceptionObject\<close> and leaves the state as it was: the
  target map is the one before the call, and so is \<^verbatim>\<open>m_TargetPositionComputed\<close>
  (false stays false).
\<close>

theorem Initialize_unset_raises:
  assumes "m_Transform m = None \<or> m_FixedMesh m = None \<or> m_MovingMesh m = None"
  shows "is_ExceptionObject (fst (Initialize uninit m)) \<and>
         snd (Initialize uninit m) = m \<and>
         targetMap (snd (Initialize uninit m)) = targetMap m \<and>
         m_TargetPositionComputed (snd (Initialize uninit m)) = m_TargetPositionComputed m"
  using assms by (auto simp: Initialize_def is_ExceptionObject_def)

theorem Initialize_unset_raises_witness:
  "is_ExceptionObject (fst (Initialize stack_garbage (two_point_metric\<lparr>m_FixedMesh := None\<rparr>))) \<and>
   targetMap (snd (Initialize stack_garbage (two_point_metric\<lparr>m_FixedMesh := None\<rparr>))) = Map.empty \<and>
   m_TargetPositionComputed (snd (Initialize stack_garbage (two_point_metric\<lparr>m_FixedMesh := None\<rparr>))) = False"
  using Initialize_unset_raises [of "two_point_metric\<lparr>m_FixedMesh := None\<rparr>" stack_garbage]
  by (simp add: two_point_metric_def)

section \<open>The target map after initialization\<close>



section \<open>The derivative does not read the displacement\<close>

text \<open>
  C9. For one state of the metric, one derivative buffer and two parameter vectors of
  the required length \<open>3 * N_moving\<close>, \<^verbatim>\<open>GetDerivative\<close> has the same outcome, the same
  derivative vector included: the values of the parameters have no influence on it.
\<close>

theorem GetDerivative_ignores_parameters:
  assumes "m_MovingMesh m = Some movingMesh"
    and "length parameters1 = 3 * GetNumberOfPoints movingMesh"
    and "length parameters2 = 3 * GetNumberOfPoints movingMesh"
  shows "GetDerivative fresh m parameters1 derivative
       = GetDerivative fresh m parameters2 derivative"
proof -
  have "length parameters1 = length parameters2" using assms(2,3) by simp
  then show ?thesis
    by (simp add: GetDerivative_def Let_def derivative_loop_params [of parameters1 parameters2]
          split: option.splits)
qed

theorem GetDerivative_ignores_parameters_witness:
  "GetDerivative heap_garbage two_point_ready [Finite 0, Finite 0, Finite 0] [] = (Inr (), [Finite 2, Finite 0, Finite 0, Finite 0, Finite 0, Finite 0], two_point_ready) \<and>
   GetDerivative heap_garbage two_point_ready [Finite 5, Finite (- 6), Finite 7] [] = (Inr (), [Finite 2, Finite 0, Finite 0, Finite 0, Finite 0, Finite 0], two_point_ready)"
proof -
  have e: "GetDerivative heap_garbage two_point_ready [Finite 0, Finite 0, Finite 0] []
      = GetDerivative heap_garbage two_point_ready [Finite 5, Finite (- 6), Finite 7] []"
    by (rule GetDerivative_ignores_parameters
          [where movingMesh = "\<lparr>Points = [pt 1 0 0], Source = None\<rparr>"])
       (simp_all add: example_defs GetNumberOfPoints_def)
  have "GetDerivative heap_garbage two_point_ready [Finite 0, Finite 0, Finite 0] [] = (Inr (), [Finite 2, Finite 0, Finite 0, Finite 0, Finite 0, Finite 0], two_point_ready)"
    by (simp add: op_defs example_defs replicate_numeral_Cons round_small)
  with e show ?thesis by simp
qed

end
